theory Spec2Isabelle
  imports Main
begin

section \<open>Python strings\<close>

text \<open>
  A Python \<open>str\<close> is a sequence of Unicode code points; a code point is modelled as a
  natural number. \<open>u\<close> turns an ASCII literal of the source into such a sequence.
\<close>

type_synonym pystr = "nat list"

definition u :: "string \<Rightarrow> pystr" where
  "u s = map of_char s"

text \<open>
  \<open>str.isspace\<close> on one character, which is also the set that \<open>str.strip()\<close> removes:
  U+0009..U+000D, U+001C..U+0020, U+0085, U+00A0, U+1680, U+2000..U+200A, U+2028, U+2029,
  U+202F, U+205F, U+3000.
\<close>

definition isspace :: "nat \<Rightarrow> bool" where
  "isspace c \<longleftrightarrow>
     (0x09 \<le> c \<and> c \<le> 0x0D) \<or> (0x1C \<le> c \<and> c \<le> 0x20) \<or> c = 0x85 \<or> c = 0xA0 \<or>
     c = 0x1680 \<or> (0x2000 \<le> c \<and> c \<le> 0x200A) \<or> c = 0x2028 \<or> c = 0x2029 \<or>
     c = 0x202F \<or> c = 0x205F \<or> c = 0x3000"

text \<open>\<open>s.isspace()\<close>: every character is whitespace and there is at least one.\<close>

definition str_isspace :: "pystr \<Rightarrow> bool" where
  "str_isspace s \<longleftrightarrow> s \<noteq> [] \<and> list_all isspace s"

text \<open>\<open>s.strip()\<close> with no argument.\<close>

definition lstrip :: "pystr \<Rightarrow> pystr" where
  "lstrip s = dropWhile isspace s"

definition rstrip :: "pystr \<Rightarrow> pystr" where
  "rstrip s = rev (dropWhile isspace (rev s))"

definition strip :: "pystr \<Rightarrow> pystr" where
  "strip s = rstrip (lstrip s)"

text \<open>\<open>s.rstrip("\n")\<close>: trailing line feeds are removed.\<close>

definition rstrip_nl :: "pystr \<Rightarrow> pystr" where
  "rstrip_nl s = rev (dropWhile (\<lambda>c. c = 0x0A) (rev s))"

text \<open>
  The line boundaries of \<open>str.splitlines\<close>: LF, VT, FF, CR, FS, GS, RS, NEL, LS, PS;
  a CR directly followed by LF is one boundary.
\<close>

definition islinebreak :: "nat \<Rightarrow> bool" where
  "islinebreak c \<longleftrightarrow>
     (0x0A \<le> c \<and> c \<le> 0x0D) \<or> (0x1C \<le> c \<and> c \<le> 0x1E) \<or> c = 0x85 \<or>
     c = 0x2028 \<or> c = 0x2029"

text \<open>
  \<open>splitlines_from cur s\<close>: the lines of \<open>s\<close>, where \<open>cur\<close> holds the characters of the
  line being read. A boundary ends the line, also an empty one; what follows the last
  boundary is a line only when it is not empty.
\<close>

fun splitlines_from :: "pystr \<Rightarrow> pystr \<Rightarrow> pystr list" where
  "splitlines_from cur [] = (if cur = [] then [] else [cur])"
| "splitlines_from cur [c] =
     (if islinebreak c then [cur] else [cur @ [c]])"
| "splitlines_from cur (c # d # s) =
     (if c = 0x0D \<and> d = 0x0A then cur # splitlines_from [] s
      else if islinebreak c then cur # splitlines_from [] (d # s)
      else splitlines_from (cur @ [c]) (d # s))"

definition splitlines :: "pystr \<Rightarrow> pystr list" where
  "splitlines s = splitlines_from [] s"

section \<open>Errors\<close>

text \<open>
  \<open>RmmError\<close> carries a message; the model keeps one constructor per message of the source
  and the values interpolated into it.
  \<^item> \<open>InvalidOutputVar v\<close>: Invalid --output-var 'v'. Use only letters, digits, and underscore
  \<^item> \<open>ScriptNotFound p\<close>: --script not found: p
  \<^item> \<open>VarsFileNotFound p\<close>: --vars file not found: p
  \<^item> \<open>InvalidEnvLine l\<close>: Invalid env line (expected KEY=VALUE): l
  \<^item> \<open>InvalidEnvLineEmptyKey l\<close>: Invalid env line (empty key): l
  \<^item> \<open>AttachmentsNotDirectory p\<close>: --attachments must be a directory: p
  \<^item> \<open>UnsupportedExtension s\<close>: Unsupported script extension: s
  \<^item> \<open>CommandNotFound c\<close>: Command not found: c (install it and try again)
\<close>

datatype rmm_error =
    InvalidOutputVar pystr
  | ScriptNotFound "pystr list"
  | VarsFileNotFound "pystr list"
  | InvalidEnvLine pystr
  | InvalidEnvLineEmptyKey pystr
  | AttachmentsNotDirectory "pystr list"
  | UnsupportedExtension pystr
  | CommandNotFound pystr

text \<open>
  An exception of the run: an \<open>RmmError\<close>, or an \<open>OSError\<close> of a library call, which the
  source does not catch.
\<close>

datatype exn = RmmError rmm_error | OSError

section \<open>The output variable name\<close>

text \<open>One character of the class \<open>[A-Za-z0-9_]\<close>.\<close>

definition is_name_char :: "nat \<Rightarrow> bool" where
  "is_name_char c \<longleftrightarrow>
     (0x41 \<le> c \<and> c \<le> 0x5A) \<or> (0x61 \<le> c \<and> c \<le> 0x7A) \<or> (0x30 \<le> c \<and> c \<le> 0x39) \<or> c = 0x5F"

text \<open>\<open>re.fullmatch(r"[A-Za-z0-9_]+", s)\<close>.\<close>

definition fullmatch_name :: "pystr \<Rightarrow> bool" where
  "fullmatch_name s \<longleftrightarrow> s \<noteq> [] \<and> list_all is_name_char s"

definition validate_output_var :: "pystr \<Rightarrow> rmm_error + pystr" where
  "validate_output_var output_var =
     (let output_var = strip output_var in
      if \<not> fullmatch_name output_var then Inl (InvalidOutputVar output_var)
      else Inr output_var)"

section \<open>The monitor output validator\<close>

text \<open>
  The messages of the validator, one constructor each:
  \<^item> \<open>ExpectedExactlyOne m\<close>: Expected exactly one 'm' line.
  \<^item> \<open>MarkerOrder\<close>: Marker order must be: Start Diagnostic -> End Diagnostic -> Start Result
    -> End Result.
  \<^item> \<open>ResultBlockEmpty\<close>: Result block is empty; expected one output variable line.
  \<^item> \<open>ExpectedOneVarLine v n\<close>: Expected exactly one 'v=...' line inside the result block;
    found n.
  \<^item> \<open>ExampleLine\<close>: Example: Status=OK: All checks passed
  \<^item> \<open>OneNonEmptyLine\<close>: Result block must contain exactly one non-empty line (the output
    variable line).
  \<^item> \<open>UnexpectedAdditional ls\<close>: Unexpected additional lines: ls
  \<^item> \<open>SpacesAroundEq\<close>: Do not include spaces around '=' (use 'Status=OK: ...', not
    'Status= OK: ...').
\<close>

datatype verror =
    ExpectedExactlyOne pystr
  | MarkerOrder
  | ResultBlockEmpty
  | ExpectedOneVarLine pystr nat
  | ExampleLine
  | OneNonEmptyLine
  | UnexpectedAdditional "pystr list"
  | SpacesAroundEq

record MonitorValidationResult =
  ok :: bool
  errors :: "verror list"

definition START_DIAGNOSTIC :: pystr where
  "START_DIAGNOSTIC = u ''<-Start Diagnostic->''"

definition END_DIAGNOSTIC :: pystr where
  "END_DIAGNOSTIC = u ''<-End Diagnostic->''"

definition START_RESULT :: pystr where
  "START_RESULT = u ''<-Start Result->''"

definition END_RESULT :: pystr where
  "END_RESULT = u ''<-End Result->''"

text \<open>
  A line of the text as an object: its index in \<open>lines\<close> and its characters. The source
  compares lines with \<open>is not\<close>, by identity, and only with the matching line, which has
  three characters or more. Each line of two characters or more that \<open>splitlines\<close> returns
  is an object of its own (CPython shares the objects of shorter strings only), so the index
  stands for the identity.
\<close>

type_synonym line_obj = "nat \<times> pystr"

text \<open>\<open>[idx for idx, line in enumerate(lines) if line.strip() == marker]\<close>\<close>

definition find_all :: "pystr list \<Rightarrow> pystr \<Rightarrow> nat list" where
  "find_all lines marker =
     map fst (filter (\<lambda>(idx, line). strip line = marker) (enumerate 0 lines))"

text \<open>
  \<open>.+$\<close> on the rest of a line: one or more characters other than LF, up to the end of the
  string or to a single LF that ends it.
\<close>

definition dot_plus_eol :: "pystr \<Rightarrow> bool" where
  "dot_plus_eol s \<longleftrightarrow>
     (s \<noteq> [] \<and> 0x0A \<notin> set s) \<or>
     (s \<noteq> [] \<and> last s = 0x0A \<and> butlast s \<noteq> [] \<and> 0x0A \<notin> set (butlast s))"

text \<open>
  \<open>re.compile(rf"^{re.escape(output_var)}=.+$").match(ln)\<close>. The name holds letters, digits
  and underscores only, which \<open>re.escape\<close> leaves as they are.
\<close>

definition pattern_match :: "pystr \<Rightarrow> pystr \<Rightarrow> bool" where
  "pattern_match output_var ln \<longleftrightarrow>
     (let prefix = output_var @ u ''='' in
      take (length prefix) ln = prefix \<and> dot_plus_eol (drop (length prefix) ln))"

text \<open>The four count checks; each appends its message when its marker is not on exactly one line.\<close>

definition count_errors :: "pystr list \<Rightarrow> verror list" where
  "count_errors lines =
     (if length (find_all lines START_DIAGNOSTIC) \<noteq> 1
        then [ExpectedExactlyOne START_DIAGNOSTIC] else []) @
     (if length (find_all lines END_DIAGNOSTIC) \<noteq> 1
        then [ExpectedExactlyOne END_DIAGNOSTIC] else []) @
     (if length (find_all lines START_RESULT) \<noteq> 1
        then [ExpectedExactlyOne START_RESULT] else []) @
     (if length (find_all lines END_RESULT) \<noteq> 1
        then [ExpectedExactlyOne END_RESULT] else [])"

text \<open>\<open>[line.rstrip("\n") for line in lines[rs + 1 : re_]]\<close>, each line with its identity.\<close>

definition result_lines :: "pystr list \<Rightarrow> nat \<Rightarrow> nat \<Rightarrow> line_obj list" where
  "result_lines lines rs re =
     map (\<lambda>(idx, line). (idx, rstrip_nl line))
       (take (re - (rs + 1)) (drop (rs + 1) (enumerate 0 lines)))"

text \<open>\<open>[ln for ln in result_lines if ln.strip() != ""]\<close>\<close>

definition non_empty :: "line_obj list \<Rightarrow> line_obj list" where
  "non_empty rl = filter (\<lambda>(idx, ln). strip ln \<noteq> []) rl"

text \<open>\<open>[ln for ln in non_empty if pattern.match(ln)]\<close>\<close>

definition matching :: "pystr \<Rightarrow> line_obj list \<Rightarrow> line_obj list" where
  "matching output_var ne = filter (\<lambda>(idx, ln). pattern_match output_var ln) ne"

text \<open>\<open>[ln for ln in non_empty if ln is not matching[0]]\<close>\<close>

definition other_lines :: "line_obj list \<Rightarrow> line_obj \<Rightarrow> line_obj list" where
  "other_lines ne m0 = filter (\<lambda>ln. fst ln \<noteq> fst m0) ne"

text \<open>
  \<open>validate_monitor_output\<close>. \<open>hd\<close> reads the first element of a list that the preceding
  check has shown to hold exactly one.
\<close>

definition validate_monitor_output :: "pystr \<Rightarrow> pystr \<Rightarrow> rmm_error + MonitorValidationResult" where
  "validate_monitor_output text output_var =
     (case validate_output_var output_var of
        Inl e \<Rightarrow> Inl e
      | Inr output_var \<Rightarrow>
          let lines = splitlines text;
              diag_start = find_all lines START_DIAGNOSTIC;
              diag_end = find_all lines END_DIAGNOSTIC;
              res_start = find_all lines START_RESULT;
              res_end = find_all lines END_RESULT;
              errs = count_errors lines
          in
          if errs \<noteq> [] then Inr \<lparr>ok = False, errors = errs\<rparr>
          else
            let ds = hd diag_start; de = hd diag_end; rs = hd res_start; re = hd res_end in
            if \<not> (ds < de \<and> de < rs \<and> rs < re) then Inr \<lparr>ok = False, errors = [MarkerOrder]\<rparr>
            else
              let ne = non_empty (result_lines lines rs re) in
              if ne = [] then Inr \<lparr>ok = False, errors = [ResultBlockEmpty]\<rparr>
              else
                let ms = matching output_var ne in
                if length ms \<noteq> 1 then
                  Inr \<lparr>ok = False,
                       errors = [ExpectedOneVarLine output_var (length ms), ExampleLine]\<rparr>
                else
                  let others = other_lines ne (hd ms) in
                  if others \<noteq> [] then
                    Inr \<lparr>ok = False,
                         errors = [OneNonEmptyLine, UnexpectedAdditional (map snd others)]\<rparr>
                  else
                    let val = drop (length output_var + 1) (snd (hd ms)) in
                    if str_isspace (take 1 val) then Inr \<lparr>ok = False, errors = [SpacesAroundEq]\<rparr>
                    else Inr \<lparr>ok = True, errors = []\<rparr>)"

section \<open>Paths and the file system\<close>

text \<open>
  A \<open>pathlib.Path\<close> is modelled by its \<open>parts\<close>: the components of the path, the first of
  which is \<open>/\<close> when the path is absolute. Paths are POSIX paths; the root written with two
  slashes is left out.
\<close>

type_synonym path = "pystr list"

definition is_absolute :: "path \<Rightarrow> bool" where
  "is_absolute p \<longleftrightarrow> p \<noteq> [] \<and> hd p = u ''/''"

text \<open>\<open>p.name\<close>: the last component, empty for the root and for the empty path.\<close>

definition name_of :: "path \<Rightarrow> pystr" where
  "name_of p = (if p = [] \<or> p = [u ''/''] then [] else last p)"

text \<open>
  \<open>p.suffix\<close>: with \<open>i = name.rfind('.')\<close>, the name from \<open>i\<close> on when
  \<open>0 < i < len(name) - 1\<close>, and the empty string otherwise.
\<close>

definition suffix :: "path \<Rightarrow> pystr" where
  "suffix p =
     (let name = name_of p in
      if 0x2E \<notin> set name then []
      else
        let i = length name - 1 - length (takeWhile (\<lambda>c. c \<noteq> 0x2E) (rev name)) in
        if 0 < i \<and> i < length name - 1 then drop i name else [])"

text \<open>
  \<open>s.lower()\<close> on the letters A to Z. The run compares a lowered suffix with \<open>.ps1\<close> and
  \<open>.sh\<close> only, and no character outside A to Z lowers to one of theirs.
\<close>

definition lower :: "pystr \<Rightarrow> pystr" where
  "lower s = map (\<lambda>c. if 0x41 \<le> c \<and> c \<le> 0x5A then c + 0x20 else c) s"

text \<open>\<open>str(p)\<close>: the components joined by \<open>/\<close>.\<close>

fun join_slash :: "pystr list \<Rightarrow> pystr" where
  "join_slash [] = []"
| "join_slash [x] = x"
| "join_slash (x # y # r) = x @ u ''/'' @ join_slash (y # r)"

definition str_of_path :: "path \<Rightarrow> pystr" where
  "str_of_path p = (if is_absolute p then u ''/'' @ join_slash (tl p) else join_slash p)"

text \<open>
  The world a run acts on: the current directory, the directories and the regular files of
  the file system (a file with its content as text), and the commands of the child processes
  spawned so far. The file system of the model has no links and refuses nothing for lack of
  permission.
\<close>

record world =
  cwd :: path
  dirs :: "path list"
  files :: "(path \<times> pystr) list"
  spawned :: "pystr list list"

text \<open>
  \<open>norm_parts acc ps\<close> follows the components \<open>ps\<close> from the path \<open>acc\<close>: \<open>..\<close> goes up one
  directory and stays at the root.
\<close>

fun norm_parts :: "path \<Rightarrow> pystr list \<Rightarrow> path" where
  "norm_parts acc [] = acc"
| "norm_parts acc (p # ps) =
     (if p = u ''..'' then norm_parts (if length acc \<le> 1 then acc else butlast acc) ps
      else norm_parts (acc @ [p]) ps)"

text \<open>
  \<open>p.resolve()\<close>: the path made absolute from the current directory and normalised. The
  model locates every path it is given by this normal form, also a path that passes through
  a directory that does not exist, which an operating system does not find.
\<close>

definition resolve :: "world \<Rightarrow> path \<Rightarrow> path" where
  "resolve w p = norm_parts [] (if is_absolute p then p else cwd w @ p)"

definition is_file :: "world \<Rightarrow> path \<Rightarrow> bool" where
  "is_file w p \<longleftrightarrow> map_of (files w) (resolve w p) \<noteq> None"

definition is_dir :: "world \<Rightarrow> path \<Rightarrow> bool" where
  "is_dir w p \<longleftrightarrow> resolve w p \<in> set (dirs w)"

definition exists_path :: "world \<Rightarrow> path \<Rightarrow> bool" where
  "exists_path w p \<longleftrightarrow> is_file w p \<or> is_dir w p"

text \<open>Reading in text mode turns CR LF and a lone CR into LF.\<close>

fun universal_newlines :: "pystr \<Rightarrow> pystr" where
  "universal_newlines [] = []"
| "universal_newlines [c] = [if c = 0x0D then 0x0A else c]"
| "universal_newlines (c # d # s) =
     (if c = 0x0D \<and> d = 0x0A then 0x0A # universal_newlines s
      else if c = 0x0D then 0x0A # universal_newlines (d # s)
      else c # universal_newlines (d # s))"

text \<open>\<open>p.read_text(...)\<close>: an \<open>OSError\<close> when \<open>p\<close> is not a regular file.\<close>

definition read_text :: "world \<Rightarrow> path \<Rightarrow> exn + pystr" where
  "read_text w p =
     (case map_of (files w) (resolve w p) of
        None \<Rightarrow> Inl OSError
      | Some c \<Rightarrow> Inr (universal_newlines c))"

definition write_file :: "path \<Rightarrow> pystr \<Rightarrow> world \<Rightarrow> world" where
  "write_file p c w = w\<lparr>files := (p, c) # filter (\<lambda>(q, _). q \<noteq> p) (files w)\<rparr>"

text \<open>The path itself and the directories above it, from the root down.\<close>

definition ancestors :: "path \<Rightarrow> path list" where
  "ancestors p = map (\<lambda>n. take n p) [1..<Suc (length p)]"

text \<open>
  \<open>p.mkdir(parents=True, exist_ok=True)\<close>: an \<open>OSError\<close> when the path or a directory above
  it is a regular file; otherwise the directories that are missing are created.
\<close>

definition mkdir_parents :: "path \<Rightarrow> world \<Rightarrow> exn + world" where
  "mkdir_parents p w =
     (let q = resolve w p in
      if \<exists>a \<in> set (ancestors q). map_of (files w) a \<noteq> None then Inl OSError
      else Inr (w\<lparr>dirs := dirs w @ filter (\<lambda>a. a \<notin> set (dirs w)) (ancestors q)\<rparr>))"

text \<open>\<open>d.iterdir()\<close>: the entries directly in \<open>d\<close>, each as \<open>d / name\<close>.\<close>

definition iterdir :: "world \<Rightarrow> path \<Rightarrow> path list" where
  "iterdir w d =
     (let q = resolve w d in
      map (\<lambda>n. d @ [n])
        (remdups (map last (filter (\<lambda>p. p \<noteq> [] \<and> butlast p = q) (map fst (files w) @ dirs w)))))"

text \<open>
  \<open>shutil.copy2(src, dst)\<close>: a destination that is a directory stands for the file of the
  source's name in it; an \<open>OSError\<close> when source and destination are the same file, when the
  destination is a directory, or when the source is not a regular file. The directory of the
  destination is taken to exist, as the working directory does in every call of the run.
\<close>

definition copy2 :: "path \<Rightarrow> path \<Rightarrow> world \<Rightarrow> exn + world" where
  "copy2 src dst w =
     (let dst = (if is_dir w dst then dst @ [name_of src] else dst) in
      if resolve w src = resolve w dst then Inl OSError
      else if is_dir w dst then Inl OSError
      else
        case map_of (files w) (resolve w src) of
          None \<Rightarrow> Inl OSError
        | Some c \<Rightarrow> Inr (write_file (resolve w dst) c w))"

text \<open>
  What a call that acts on the world gives: an exception, with the world as it is when the
  exception is raised, or a value with the world as the call leaves it.
\<close>

datatype 'a outcome = Raised exn world | Returned 'a world

section \<open>The helpers of the run\<close>

text \<open>The loop of \<open>copy_attachments\<close> over the entries of the attachments directory.\<close>

fun copy_children :: "path list \<Rightarrow> path \<Rightarrow> world \<Rightarrow> unit outcome" where
  "copy_children [] workdir w = Returned () w"
| "copy_children (child # rest) workdir w =
     (if is_file w child then
        (case copy2 child (workdir @ [name_of child]) w of
           Inl e \<Rightarrow> Raised e w
         | Inr w' \<Rightarrow> copy_children rest workdir w')
      else copy_children rest workdir w)"

definition copy_attachments :: "path \<Rightarrow> path \<Rightarrow> world \<Rightarrow> unit outcome" where
  "copy_attachments attachments_dir workdir w =
     (if \<not> exists_path w attachments_dir \<or> \<not> is_dir w attachments_dir then
        Raised (RmmError (AttachmentsNotDirectory attachments_dir)) w
      else copy_children (iterdir w attachments_dir) workdir w)"

definition startswith :: "pystr \<Rightarrow> pystr \<Rightarrow> bool" where
  "startswith s prefix \<longleftrightarrow> take (length prefix) s = prefix"

text \<open>
  The loop of \<open>parse_env_file\<close> over the lines of the file. \<open>shlex_split\<close> stands for
  \<open>shlex.split(value, posix=True)\<close>, with \<open>None\<close> for its \<open>ValueError\<close>.
\<close>

fun parse_env_lines ::
  "(pystr \<Rightarrow> pystr list option) \<Rightarrow> pystr list \<Rightarrow> (pystr \<rightharpoonup> pystr) \<Rightarrow> rmm_error + (pystr \<rightharpoonup> pystr)"
where
  "parse_env_lines shlex_split [] env = Inr env"
| "parse_env_lines shlex_split (raw_line # rest) env =
     (let line = strip raw_line in
      if line = [] \<or> startswith line (u ''#'') then parse_env_lines shlex_split rest env
      else
        let line = (if startswith line (u ''export '') then strip (drop 7 line) else line) in
        if 0x3D \<notin> set line then Inl (InvalidEnvLine raw_line)
        else
          let key = strip (takeWhile (\<lambda>c. c \<noteq> 0x3D) line);
              val = strip (drop 1 (dropWhile (\<lambda>c. c \<noteq> 0x3D) line))
          in
          if key = [] then Inl (InvalidEnvLineEmptyKey raw_line)
          else
            let val =
              (if startswith val (u [CHR 0x27]) \<or> startswith val (u [CHR 0x22]) then
                 (case shlex_split val of Some [parsed] \<Rightarrow> parsed | _ \<Rightarrow> val)
               else val)
            in parse_env_lines shlex_split rest (env(key \<mapsto> val)))"

definition parse_env_file ::
  "(pystr \<Rightarrow> pystr list option) \<Rightarrow> world \<Rightarrow> path \<Rightarrow> exn + (pystr \<rightharpoonup> pystr)"
where
  "parse_env_file shlex_split w env_path =
     (if \<not> exists_path w env_path then Inl (RmmError (VarsFileNotFound env_path))
      else
        case read_text w env_path of
          Inl e \<Rightarrow> Inl e
        | Inr text \<Rightarrow>
            (case parse_env_lines shlex_split (splitlines text) Map.empty of
               Inl e \<Rightarrow> Inl (RmmError e)
             | Inr env \<Rightarrow> Inr env))"

section \<open>The run operation\<close>

text \<open>
  The arguments of the \<open>run\<close> subcommand, \<open>args.script\<close> to \<open>args.output_var\<close>. The
  script, the override file, the working directory and the attachments directory are the
  paths that \<open>Path(...)\<close> makes of the strings given; \<open>None\<close> is an option that is absent
  or empty.
\<close>

record run_args =
  args_script :: path
  args_vars :: "path option"
  args_workdir :: "path option"
  args_attachments :: "path option"
  args_validate_monitor :: bool
  args_output_var :: pystr

text \<open>
  What the run takes from its host: the root of the repository, the environment of the
  process, the directory that \<open>tempfile.mkdtemp\<close> creates, \<open>shlex.split\<close>, and the child
  process. \<open>subprocess_run cmd cwd env w\<close> is \<open>None\<close> when the program of \<open>cmd\<close> is not found, and
  otherwise the exit code of the child with what it wrote to its standard output and to its
  standard error. What else a child does to the file system is not modelled: after a child
  has run, the two capture files hold what it wrote.
\<close>

record host =
  REPO_ROOT :: path
  environ :: "pystr \<rightharpoonup> pystr"
  mkdtemp :: "world \<Rightarrow> path"
  shlex_split :: "pystr \<Rightarrow> pystr list option"
  subprocess_run :: "pystr list \<Rightarrow> path \<Rightarrow> (pystr \<rightharpoonup> pystr) \<Rightarrow> world \<Rightarrow> (int \<times> pystr \<times> pystr) option"

text \<open>
  Lines 298 to 324 of \<open>cmd_run\<close>: everything before the child is spawned. It gives the script
  path, the working directory, the environment and the command of the child.
\<close>

definition prepare ::
  "host \<Rightarrow> run_args \<Rightarrow> world \<Rightarrow> (path \<times> path \<times> (pystr \<rightharpoonup> pystr) \<times> pystr list) outcome"
where
  "prepare h args w =
     (let script_path = args_script args;
          script_path =
            (if \<not> is_absolute script_path then resolve w (REPO_ROOT h @ script_path)
             else script_path)
      in
      if \<not> exists_path w script_path then Raised (RmmError (ScriptNotFound script_path)) w
      else
        let (workdir, w1) =
              (case args_workdir args of
                 Some d \<Rightarrow> (resolve w d, w)
               | None \<Rightarrow> (mkdtemp h w, w\<lparr>dirs := dirs w @ [mkdtemp h w]\<rparr>))
        in
        case mkdir_parents workdir w1 of
          Inl e \<Rightarrow> Raised e w1
        | Inr w2 \<Rightarrow>
            (case (case args_vars args of
                     None \<Rightarrow> Inr (environ h)
                   | Some v \<Rightarrow>
                       (case parse_env_file (shlex_split h) w2 v of
                          Inl e \<Rightarrow> Inl e
                        | Inr parsed \<Rightarrow> Inr (environ h ++ parsed))) of
               Inl e \<Rightarrow> Raised e w2
             | Inr env \<Rightarrow>
                 (case (case args_attachments args of
                          None \<Rightarrow> Returned () w2
                        | Some a \<Rightarrow> copy_attachments a workdir w2) of
                    Raised e w3 \<Rightarrow> Raised e w3
                  | Returned _ w3 \<Rightarrow>
                      if lower (suffix script_path) = u ''.ps1'' then
                        Returned (script_path, workdir, env,
                          [u ''pwsh'', u ''-NoProfile'', u ''-NonInteractive'',
                           u ''-ExecutionPolicy'', u ''Bypass'', u ''-File'',
                           str_of_path script_path]) w3
                      else if lower (suffix script_path) = u ''.sh'' then
                        Returned (script_path, workdir, env,
                          [u ''bash'', str_of_path script_path]) w3
                      else
                        Raised (RmmError (UnsupportedExtension (suffix script_path))) w3)))"

text \<open>\<open>p.open("wb")\<close>: the file is created or emptied; an \<open>OSError\<close> when \<open>p\<close> is a directory.\<close>

definition open_wb :: "path \<Rightarrow> world \<Rightarrow> exn + world" where
  "open_wb p w = (if is_dir w p then Inl OSError else Inr (write_file (resolve w p) [] w))"

text \<open>
  Lines 330 to 341: the two capture files are opened, the child runs with its streams
  redirected to them, and a program that is not found is an \<open>RmmError\<close>.
\<close>

definition run_process ::
  "host \<Rightarrow> pystr list \<Rightarrow> path \<Rightarrow> (pystr \<rightharpoonup> pystr) \<Rightarrow> world \<Rightarrow> int outcome"
where
  "run_process h cmd workdir env w =
     (let stdout_path = workdir @ [u ''stdout.txt''];
          stderr_path = workdir @ [u ''stderr.txt'']
      in
      case open_wb stdout_path w of
        Inl e \<Rightarrow> Raised e w
      | Inr w1 \<Rightarrow>
          (case open_wb stderr_path w1 of
             Inl e \<Rightarrow> Raised e w1
           | Inr w2 \<Rightarrow>
               (case subprocess_run h cmd workdir env w2 of
                  None \<Rightarrow> Raised (RmmError (CommandNotFound (hd cmd))) w2
                | Some (returncode, out, err) \<Rightarrow>
                    Returned returncode
                      (write_file (resolve w2 stderr_path) err
                        (write_file (resolve w2 stdout_path) out
                          (w2\<lparr>spawned := spawned w2 @ [cmd]\<rparr>))))))"

text \<open>Lines 347 to 349: whether the output of the child is validated.\<close>

definition should_validate :: "run_args \<Rightarrow> path \<Rightarrow> bool" where
  "should_validate args script_path =
     (let should_validate = args_validate_monitor args in
      if \<not> should_validate \<and> u ''Monitors'' \<in> set script_path then True
      else should_validate)"

text \<open>
  \<open>cmd_run\<close>. What the source prints is left out. The value returned is the exit code of
  the command.
\<close>

definition cmd_run :: "host \<Rightarrow> run_args \<Rightarrow> world \<Rightarrow> int outcome" where
  "cmd_run h args w =
     (case prepare h args w of
        Raised e w1 \<Rightarrow> Raised e w1
      | Returned (script_path, workdir, env, cmd) w1 \<Rightarrow>
          (case run_process h cmd workdir env w1 of
             Raised e w2 \<Rightarrow> Raised e w2
           | Returned returncode w2 \<Rightarrow>
               if should_validate args script_path then
                 (case read_text w2 (workdir @ [u ''stdout.txt'']) of
                    Inl e \<Rightarrow> Raised e w2
                  | Inr stdout_text \<Rightarrow>
                      (case validate_monitor_output stdout_text (args_output_var args) of
                         Inl e \<Rightarrow> Raised (RmmError e) w2
                       | Inr validation \<Rightarrow>
                           if ok validation then Returned returncode w2
                           else if returncode = 0 then Returned 2 w2
                           else Returned returncode w2))
               else Returned returncode w2))"

text \<open>
  The errors of the run that concern its configuration: a missing script, an override file
  that is missing or malformed, a bad attachments directory, an unsupported extension.
\<close>

fun is_config_error :: "rmm_error \<Rightarrow> bool" where
  "is_config_error (ScriptNotFound p) = True"
| "is_config_error (VarsFileNotFound p) = True"
| "is_config_error (InvalidEnvLine l) = True"
| "is_config_error (InvalidEnvLineEmptyKey l) = True"
| "is_config_error (AttachmentsNotDirectory p) = True"
| "is_config_error (UnsupportedExtension s) = True"
| "is_config_error (InvalidOutputVar v) = False"
| "is_config_error (CommandNotFound c) = False"

section \<open>Names used in the statements\<close>

text \<open>The four markers, in the order in which the validator counts them.\<close>

definition MARKERS :: "pystr list" where
  "MARKERS = [START_DIAGNOSTIC, END_DIAGNOSTIC, START_RESULT, END_RESULT]"

text \<open>The text whose lines are the given ASCII lines, each ended by a line feed.\<close>

definition text_of_lines :: "string list \<Rightarrow> pystr" where
  "text_of_lines ls = concat (map (\<lambda>l. u l @ [0x0A]) ls)"

text \<open>The exit code a run returns, if it returns one.\<close>

fun exit_code_of :: "int outcome \<Rightarrow> int option" where
  "exit_code_of (Returned code w) = Some code"
| "exit_code_of (Raised e w) = None"

text \<open>
  A small host and world for the examples. The repository is \<open>/r\<close>; it holds the scripts
  \<open>/r/Monitors/c.sh\<close>, \<open>/r/Scripts/c.sh\<close> and \<open>/r/Scripts/c.txt\<close> and the attachment
  \<open>/r/att/a\<close>. The child of \<open>example_host\<close> prints nothing and exits with code 0; the child of
  \<open>failing_host\<close> prints nothing and exits with code 3.
\<close>

definition example_host :: host where
  "example_host =
     \<lparr>REPO_ROOT = [u ''/'', u ''r''],
      environ = Map.empty,
      mkdtemp = (\<lambda>w. [u ''/'', u ''t'']),
      shlex_split = (\<lambda>s. None),
      subprocess_run = (\<lambda>cmd cwd env w. Some (0, [], []))\<rparr>"

definition failing_host :: host where
  "failing_host = example_host\<lparr>subprocess_run := (\<lambda>cmd cwd env w. Some (3, [], []))\<rparr>"

definition example_world :: world where
  "example_world =
     \<lparr>cwd = [u ''/'', u ''r''],
      dirs = [[u ''/''], [u ''/'', u ''r''], [u ''/'', u ''r'', u ''Monitors''],
              [u ''/'', u ''r'', u ''Scripts''], [u ''/'', u ''r'', u ''att'']],
      files = [([u ''/'', u ''r'', u ''Monitors'', u ''c.sh''], []),
               ([u ''/'', u ''r'', u ''Scripts'', u ''c.sh''], []),
               ([u ''/'', u ''r'', u ''Scripts'', u ''c.txt''], []),
               ([u ''/'', u ''r'', u ''att'', u ''a''], u ''x'')],
      spawned = []\<rparr>"

text \<open>A run of the script at \<open>p\<close> with every option left out.\<close>

definition example_args :: "path \<Rightarrow> run_args" where
  "example_args p =
     \<lparr>args_script = p, args_vars = None, args_workdir = None, args_attachments = None,
      args_validate_monitor = False, args_output_var = u ''Status''\<rparr>"


section \<open>The validator: properties\<close>

lemmas str_eval = u_def strip_def lstrip_def rstrip_def isspace_def

lemmas marker_defs = START_DIAGNOSTIC_def END_DIAGNOSTIC_def START_RESULT_def END_RESULT_def

lemma validate_output_var_Inr:
  "validate_output_var ov = Inr name \<Longrightarrow> name = strip ov \<and> fullmatch_name name"
  by (auto simp: validate_output_var_def Let_def split: if_splits)

lemma count_errors_filter:
  "count_errors L = map ExpectedExactlyOne (filter (\<lambda>m. length (find_all L m) \<noteq> 1) MARKERS)"
  by (simp add: count_errors_def MARKERS_def)

lemma count_errors_Nil_iff:
  "count_errors L = [] \<longleftrightarrow> (\<forall>m \<in> set MARKERS. length (find_all L m) = 1)"
  by (simp add: count_errors_def MARKERS_def)

text \<open>
  Claim C2. Whenever the validator returns a result, \<open>ok = True\<close> comes with an empty
  list of errors and \<open>ok = False\<close> with at least one error.
\<close>

theorem validation_result_invariant:
  "validate_monitor_output text output_var = Inr r \<Longrightarrow>
     (ok r \<longrightarrow> errors r = []) \<and> (\<not> ok r \<longrightarrow> errors r \<noteq> [])"
  by (auto simp: validate_monitor_output_def Let_def split: sum.splits if_splits)

text \<open>
  Claim C3. The four marker counts are all checked before the validator returns: when
  some marker is not on exactly one line, validation fails and the errors are exactly the count
  errors of the markers whose count is not one, in the order of the markers, which are
  distinct. In particular, two Start Diagnostic lines with the other three markers once each
  give the count error of Start Diagnostic alone.
\<close>

theorem marker_counts:
  assumes "validate_output_var output_var = Inr name"
    and "\<exists>m \<in> set MARKERS. length (find_all (splitlines text) m) \<noteq> 1"
  shows "validate_monitor_output text output_var =
           Inr \<lparr>ok = False,
                errors = map ExpectedExactlyOne
                  (filter (\<lambda>m. length (find_all (splitlines text) m) \<noteq> 1) MARKERS)\<rparr> \<and>
         distinct MARKERS \<and>
         (length (find_all (splitlines text) START_DIAGNOSTIC) = 2 \<and>
          length (find_all (splitlines text) END_DIAGNOSTIC) = 1 \<and>
          length (find_all (splitlines text) START_RESULT) = 1 \<and>
          length (find_all (splitlines text) END_RESULT) = 1 \<longrightarrow>
          validate_monitor_output text output_var =
            Inr \<lparr>ok = False, errors = [ExpectedExactlyOne START_DIAGNOSTIC]\<rparr>)"
proof -
  have "count_errors (splitlines text) \<noteq> []"
    using assms(2) count_errors_Nil_iff by blast
  then have 1: "validate_monitor_output text output_var =
           Inr \<lparr>ok = False,
                errors = map ExpectedExactlyOne
                  (filter (\<lambda>m. length (find_all (splitlines text) m) \<noteq> 1) MARKERS)\<rparr>"
    using assms(1) by (simp add: validate_monitor_output_def Let_def count_errors_filter)
  have 2: "distinct MARKERS"
    by (simp add: MARKERS_def marker_defs u_def)
  from 1 2 show ?thesis by (simp add: MARKERS_def)
qed

text \<open>
  Claim C4. When each marker is on exactly one line and the four indices are not strictly
  increasing, validation fails with the ordering error alone, whatever the blocks hold.
\<close>

theorem marker_order:
  assumes "validate_output_var output_var = Inr name"
    and "find_all (splitlines text) START_DIAGNOSTIC = [ds]"
    and "find_all (splitlines text) END_DIAGNOSTIC = [de]"
    and "find_all (splitlines text) START_RESULT = [rs]"
    and "find_all (splitlines text) END_RESULT = [re]"
    and "\<not> (ds < de \<and> de < rs \<and> rs < re)"
  shows "validate_monitor_output text output_var = Inr \<lparr>ok = False, errors = [MarkerOrder]\<rparr>"
  using assms by (simp add: validate_monitor_output_def Let_def count_errors_def)


lemma map_fst_result_lines:
  "map fst (result_lines L rs re) = map fst (take (re - (rs + 1)) (drop (rs + 1) (enumerate 0 L)))"
  by (simp add: result_lines_def case_prod_beta comp_def)

lemma distinct_fst_result_lines: "distinct (map fst (result_lines L rs re))"
proof -
  have "distinct (map fst (enumerate 0 L))" by simp
  then have "distinct (map fst (take (re - (rs + 1)) (drop (rs + 1) (enumerate 0 L))))"
    unfolding take_map [symmetric] drop_map [symmetric]
    by (intro distinct_take distinct_drop)
  then show ?thesis by (simp only: map_fst_result_lines)
qed

lemma distinct_fst_non_empty: "distinct (map fst (non_empty (result_lines L rs re)))"
  unfolding non_empty_def by (rule distinct_map_filter [OF distinct_fst_result_lines])

lemma validate_after_order:
  assumes "validate_output_var output_var = Inr name"
    and "find_all (splitlines text) START_DIAGNOSTIC = [ds]"
    and "find_all (splitlines text) END_DIAGNOSTIC = [de]"
    and "find_all (splitlines text) START_RESULT = [rs]"
    and "find_all (splitlines text) END_RESULT = [re]"
    and "ds < de" and "de < rs" and "rs < re"
  shows "validate_monitor_output text output_var =
    (let ne = non_empty (result_lines (splitlines text) rs re) in
      if ne = [] then Inr \<lparr>ok = False, errors = [ResultBlockEmpty]\<rparr>
      else
        let ms = matching name ne in
        if length ms \<noteq> 1 then
          Inr \<lparr>ok = False, errors = [ExpectedOneVarLine name (length ms), ExampleLine]\<rparr>
        else
          let others = other_lines ne (hd ms) in
          if others \<noteq> [] then
            Inr \<lparr>ok = False, errors = [OneNonEmptyLine, UnexpectedAdditional (map snd others)]\<rparr>
          else
            let val = drop (length name + 1) (snd (hd ms)) in
            if str_isspace (take 1 val) then Inr \<lparr>ok = False, errors = [SpacesAroundEq]\<rparr>
            else Inr \<lparr>ok = True, errors = []\<rparr>)"
  using assms by (simp add: validate_monitor_output_def count_errors_def Let_def)

text \<open>
  Claim C7. With the markers counted and ordered, a result block of exactly two non-empty
  lines, exactly one of which matches \<open>name=value\<close>, fails: the errors name the line that
  does not match as unexpected.
\<close>

theorem extra_line_rejected:
  assumes "validate_output_var output_var = Inr name"
    and "find_all (splitlines text) START_DIAGNOSTIC = [ds]"
    and "find_all (splitlines text) END_DIAGNOSTIC = [de]"
    and "find_all (splitlines text) START_RESULT = [rs]"
    and "find_all (splitlines text) END_RESULT = [re]"
    and "ds < de" and "de < rs" and "rs < re"
    and ne: "non_empty (result_lines (splitlines text) rs re) = [a, b]"
    and one: "pattern_match name (snd a) \<noteq> pattern_match name (snd b)"
  shows "validate_monitor_output text output_var =
           Inr \<lparr>ok = False,
                errors = [OneNonEmptyLine,
                  UnexpectedAdditional [snd (if pattern_match name (snd a) then b else a)]]\<rparr>"
proof -
  have "distinct (map fst [a, b])"
    using distinct_fst_non_empty [of "splitlines text" rs re] by (simp only: ne)
  then have ab: "fst a \<noteq> fst b" by simp
  show ?thesis
  proof (cases "pattern_match name (snd a)")
    case True
    with one have "\<not> pattern_match name (snd b)" by simp
    with True have ms: "matching name [a, b] = [a]"
      by (simp add: matching_def case_prod_beta)
    have "other_lines [a, b] a = [b]" using ab by (auto simp: other_lines_def)
    with ms True show ?thesis
      by (simp add: validate_after_order [OF assms(1-8)] ne)
  next
    case False
    with one have "pattern_match name (snd b)" by simp
    with False have ms: "matching name [a, b] = [b]"
      by (simp add: matching_def case_prod_beta)
    have "other_lines [a, b] b = [a]" using ab by (auto simp: other_lines_def)
    with ms False show ?thesis
      by (simp add: validate_after_order [OF assms(1-8)] ne)
  qed
qed

text \<open>
  Claim C8. A text that passes the counts, the ordering, the exactly-one-match check and the
  check for other lines, and whose matching line has whitespace right after \<open>name=\<close>, fails
  with the one error about spaces around the equals sign.
\<close>

theorem leading_space_value:
  assumes "validate_output_var output_var = Inr name"
    and "find_all (splitlines text) START_DIAGNOSTIC = [ds]"
    and "find_all (splitlines text) END_DIAGNOSTIC = [de]"
    and "find_all (splitlines text) START_RESULT = [rs]"
    and "find_all (splitlines text) END_RESULT = [re]"
    and "ds < de" and "de < rs" and "rs < re"
    and ms: "matching name (non_empty (result_lines (splitlines text) rs re)) = [m]"
    and others: "other_lines (non_empty (result_lines (splitlines text) rs re)) m = []"
    and val: "snd m = name @ u ''='' @ c # rest"
    and c: "isspace c"
  shows "validate_monitor_output text output_var = Inr \<lparr>ok = False, errors = [SpacesAroundEq]\<rparr>"
proof -
  have "non_empty (result_lines (splitlines text) rs re) \<noteq> []"
    using ms by (auto simp: matching_def)
  moreover have "str_isspace (take 1 (drop (length name + 1) (snd m)))"
    using c by (simp add: val u_def str_isspace_def)
  ultimately show ?thesis
    by (simp add: validate_after_order [OF assms(1-8)] ms others)
qed

lemma isspace_not_name_char: "isspace c \<Longrightarrow> \<not> is_name_char c"
  by (auto simp: isspace_def is_name_char_def)

lemma not_pattern_match_leading_space:
  assumes "fullmatch_name name" and "ws \<noteq> []" and "list_all isspace ws"
  shows "\<not> pattern_match name (ws @ s)"
proof
  assume "pattern_match name (ws @ s)"
  then have eq: "take (length name + 1) (ws @ s) = name @ u ''=''"
    by (simp add: pattern_match_def Let_def u_def)
  obtain w ws' where ws: "ws = w # ws'" using assms(2) by (cases ws) auto
  obtain n name' where name: "name = n # name'" using assms(1) by (cases name) (auto simp: fullmatch_name_def)
  from eq have "w = n" by (simp add: ws name)
  moreover have "isspace w" using assms(3) by (simp add: ws)
  moreover have "is_name_char n" using assms(1) by (simp add: name fullmatch_name_def)
  ultimately show False using isspace_not_name_char by blast
qed

lemma strip_surrounded:
  assumes "list_all isspace ws1" and "list_all isspace ws2"
    and "m \<noteq> []" and "\<not> isspace (hd m)" and "\<not> isspace (last m)"
  shows "strip (ws1 @ m @ ws2) = m"
proof -
  obtain x xs where m: "m = x # xs" using assms(3) by (cases m) auto
  have l: "lstrip (ws1 @ m @ ws2) = m @ ws2"
    using assms(1,4) unfolding lstrip_def m
    by (induction ws1) auto
  obtain ys y where m': "m = ys @ [y]" using assms(3) by (cases m rule: rev_cases) auto
  have "dropWhile isspace (rev ws2 @ rev m) = rev m"
    using assms(2,5) unfolding m' by (induction ws2 rule: rev_induct) auto
  then have "rstrip (m @ ws2) = m" by (simp add: rstrip_def)
  with l show ?thesis by (simp add: strip_def)
qed

lemma marker_ends:
  "m \<in> set MARKERS \<Longrightarrow> m \<noteq> [] \<and> \<not> isspace (hd m) \<and> \<not> isspace (last m)"
  by (auto simp: MARKERS_def START_DIAGNOSTIC_def END_DIAGNOSTIC_def START_RESULT_def END_RESULT_def
      u_def isspace_def)

text \<open>
  Claim C10. The result line is matched from the start of the line as it stands: when the
  only non-empty line of the result block is \<open>name=value\<close> after leading whitespace,
  validation fails with the exactly-one-match error reporting zero matches. A marker, in
  contrast, is found on a line that holds it between whitespace.
\<close>

theorem result_line_untrimmed:
  assumes "validate_output_var output_var = Inr name"
    and "find_all (splitlines text) START_DIAGNOSTIC = [ds]"
    and "find_all (splitlines text) END_DIAGNOSTIC = [de]"
    and "find_all (splitlines text) START_RESULT = [rs]"
    and "find_all (splitlines text) END_RESULT = [re]"
    and "ds < de" and "de < rs" and "rs < re"
    and ne: "non_empty (result_lines (splitlines text) rs re) = [(i, ws @ name @ u ''='' @ v)]"
    and ws: "ws \<noteq> []" "list_all isspace ws"
    and m: "m \<in> set MARKERS" and ws': "list_all isspace ws1" "list_all isspace ws2"
  shows "validate_monitor_output text output_var =
           Inr \<lparr>ok = False, errors = [ExpectedOneVarLine name 0, ExampleLine]\<rparr> \<and>
         find_all [ws1 @ m @ ws2] m = [0]"
proof -
  have "fullmatch_name name" using assms(1) validate_output_var_Inr by blast
  then have "\<not> pattern_match name (ws @ name @ u ''='' @ v)"
    using ws by (rule not_pattern_match_leading_space)
  then have "matching name [(i, ws @ name @ u ''='' @ v)] = []"
    by (simp add: matching_def)
  then have 1: "validate_monitor_output text output_var =
           Inr \<lparr>ok = False, errors = [ExpectedOneVarLine name 0, ExampleLine]\<rparr>"
    by (simp add: validate_after_order [OF assms(1-8)] ne)
  have "strip (ws1 @ m @ ws2) = m"
    using ws' marker_ends [OF m] by (intro strip_surrounded) auto
  then have "find_all [ws1 @ m @ ws2] m = [0]" by (simp add: find_all_def)
  with 1 show ?thesis by simp
qed


lemma strip_name: 
  assumes "fullmatch_name n" shows "strip n = n"
proof -
  obtain x xs where n: "n = x # xs" using assms by (cases n) (auto simp: fullmatch_name_def)
  obtain ys y where n': "n = ys @ [y]" using assms by (cases n rule: rev_cases) (auto simp: fullmatch_name_def)
  have "\<not> isspace x" using assms isspace_not_name_char by (auto simp: n fullmatch_name_def)
  then have l: "lstrip n = n" by (simp add: lstrip_def n)
  have "\<not> isspace y" using assms isspace_not_name_char by (auto simp: n' fullmatch_name_def)
  then have "rstrip n = n" by (simp add: rstrip_def n')
  with l show ?thesis by (simp add: strip_def)
qed

text \<open>
  Claim C9. The name is stripped before it is checked: when the stripped name is a non-empty
  string of letters, digits and underscores, validation goes on with the stripped name and
  returns a result; otherwise the validator raises the error for an invalid name and returns
  no result.
\<close>

theorem output_var_stripped:
  "(fullmatch_name (strip output_var) \<longrightarrow>
      validate_output_var output_var = Inr (strip output_var) \<and>
      validate_monitor_output text output_var = validate_monitor_output text (strip output_var) \<and>
      (\<exists>r. validate_monitor_output text output_var = Inr r)) \<and>
   (\<not> fullmatch_name (strip output_var) \<longrightarrow>
      validate_monitor_output text output_var = Inl (InvalidOutputVar (strip output_var)))"
proof (cases "fullmatch_name (strip output_var)")
  case True
  then have 1: "validate_output_var output_var = Inr (strip output_var)"
    by (simp add: validate_output_var_def)
  have "strip (strip output_var) = strip output_var" using True by (rule strip_name)
  with True have 2: "validate_output_var (strip output_var) = Inr (strip output_var)"
    by (simp add: validate_output_var_def)
  have 3: "validate_monitor_output text output_var = validate_monitor_output text (strip output_var)"
    by (simp add: validate_monitor_output_def 1 2)
  have "\<exists>r. validate_monitor_output text output_var = Inr r"
    by (simp add: validate_monitor_output_def 1 Let_def)
  with True 1 3 show ?thesis by simp
next
  case False
  then show ?thesis by (simp add: validate_monitor_output_def validate_output_var_def)
qed


lemma status_name: "validate_output_var (u ''Status'') = Inr (u ''Status'')"
  by (simp add: validate_output_var_def fullmatch_name_def is_name_char_def str_eval)

theorem output_var_stripped_witness:
  "fullmatch_name (strip (u '' Status '')) \<and>
   validate_output_var (u '' Status '') = Inr (u ''Status'') \<and>
   validate_monitor_output [] (u '' Status '') = validate_monitor_output [] (u ''Status'') \<and>
   \<not> fullmatch_name (strip (u ''Sta tus'')) \<and>
   validate_monitor_output [] (u ''Sta tus'') = Inl (InvalidOutputVar (u ''Sta tus''))"
proof -
  have s: "strip (u '' Status '') = u ''Status''" by (simp add: str_eval)
  have f: "fullmatch_name (u ''Status'')" by (simp add: fullmatch_name_def is_name_char_def u_def)
  have s': "strip (u ''Sta tus'') = u ''Sta tus''" by (simp add: str_eval)
  have f': "\<not> fullmatch_name (u ''Sta tus'')" by (simp add: fullmatch_name_def is_name_char_def u_def)
  show ?thesis
    using output_var_stripped [of "u '' Status ''" "[]"] output_var_stripped [of "u ''Sta tus''" "[]"]
    by (simp only: s f s' f' simp_thms)
qed

lemma lines_two_starts:
  "splitlines (text_of_lines [''<-Start Diagnostic->'', ''<-Start Diagnostic->'',
      ''<-End Diagnostic->'', ''<-Start Result->'', ''Status=OK'', ''<-End Result->'']) =
   [u ''<-Start Diagnostic->'', u ''<-Start Diagnostic->'',
      u ''<-End Diagnostic->'', u ''<-Start Result->'', u ''Status=OK'', u ''<-End Result->'']"
  by (simp add: text_of_lines_def u_def splitlines_def islinebreak_def)

theorem marker_counts_witness:
  "validate_monitor_output (text_of_lines [''<-Start Diagnostic->'', ''<-Start Diagnostic->'',
      ''<-End Diagnostic->'', ''<-Start Result->'', ''Status=OK'', ''<-End Result->''])
     (u ''Status'') = Inr \<lparr>ok = False, errors = [ExpectedExactlyOne START_DIAGNOSTIC]\<rparr>"
proof -
  let ?T = "text_of_lines [''<-Start Diagnostic->'', ''<-Start Diagnostic->'',
      ''<-End Diagnostic->'', ''<-Start Result->'', ''Status=OK'', ''<-End Result->'']"
  have 1: "find_all (splitlines ?T) START_DIAGNOSTIC = [0, 1]"
    unfolding lines_two_starts by (simp add: find_all_def marker_defs str_eval)
  have 2: "find_all (splitlines ?T) END_DIAGNOSTIC = [2]"
    unfolding lines_two_starts by (simp add: find_all_def marker_defs str_eval)
  have 3: "find_all (splitlines ?T) START_RESULT = [3]"
    unfolding lines_two_starts by (simp add: find_all_def marker_defs str_eval)
  have 4: "find_all (splitlines ?T) END_RESULT = [5]"
    unfolding lines_two_starts by (simp add: find_all_def marker_defs str_eval)
  have ex: "\<exists>m \<in> set MARKERS. length (find_all (splitlines ?T) m) \<noteq> 1"
    by (simp add: MARKERS_def 1)
  have len: "length (find_all (splitlines ?T) START_DIAGNOSTIC) = 2 \<and>
             length (find_all (splitlines ?T) END_DIAGNOSTIC) = 1 \<and>
             length (find_all (splitlines ?T) START_RESULT) = 1 \<and>
             length (find_all (splitlines ?T) END_RESULT) = 1"
    by (simp add: 1 2 3 4)
  show ?thesis
    using marker_counts [OF status_name ex] len by blast
qed

lemma lines_wrong_order:
  "splitlines (text_of_lines [''<-Start Diagnostic->'', ''<-Start Result->'', ''<-End Diagnostic->'', ''Status=OK'', ''<-End Result->'']) =
   [u ''<-Start Diagnostic->'', u ''<-Start Result->'', u ''<-End Diagnostic->'', u ''Status=OK'', u ''<-End Result->'']"
  by (simp add: text_of_lines_def u_def splitlines_def islinebreak_def)

theorem marker_order_witness:
  "validate_monitor_output (text_of_lines [''<-Start Diagnostic->'', ''<-Start Result->'', ''<-End Diagnostic->'', ''Status=OK'', ''<-End Result->'']) (u ''Status'') =
     Inr \<lparr>ok = False, errors = [MarkerOrder]\<rparr>"
proof -
  let ?T = "text_of_lines [''<-Start Diagnostic->'', ''<-Start Result->'', ''<-End Diagnostic->'', ''Status=OK'', ''<-End Result->'']"
  have 1: "find_all (splitlines ?T) START_DIAGNOSTIC = [0]"
    unfolding lines_wrong_order by (simp add: find_all_def marker_defs str_eval)
  have 2: "find_all (splitlines ?T) END_DIAGNOSTIC = [2]"
    unfolding lines_wrong_order by (simp add: find_all_def marker_defs str_eval)
  have 3: "find_all (splitlines ?T) START_RESULT = [1]"
    unfolding lines_wrong_order by (simp add: find_all_def marker_defs str_eval)
  have 4: "find_all (splitlines ?T) END_RESULT = [4]"
    unfolding lines_wrong_order by (simp add: find_all_def marker_defs str_eval)
  have o: "\<not> ((0::nat) < 2 \<and> (2::nat) < 1 \<and> (1::nat) < 4)" by simp
  show ?thesis
    by (rule marker_order [OF status_name 1 2 3 4 o])
qed

lemma lines_extra:
  "splitlines (text_of_lines [''<-Start Diagnostic->'', ''<-End Diagnostic->'', ''<-Start Result->'', ''Status=OK'', ''junk'', ''<-End Result->'']) =
   [u ''<-Start Diagnostic->'', u ''<-End Diagnostic->'', u ''<-Start Result->'', u ''Status=OK'', u ''junk'', u ''<-End Result->'']"
  by (simp add: text_of_lines_def u_def splitlines_def islinebreak_def)

theorem extra_line_rejected_witness:
  "validate_monitor_output (text_of_lines [''<-Start Diagnostic->'', ''<-End Diagnostic->'', ''<-Start Result->'', ''Status=OK'', ''junk'', ''<-End Result->'']) (u ''Status'') =
     Inr \<lparr>ok = False, errors = [OneNonEmptyLine, UnexpectedAdditional [u ''junk'']]\<rparr>"
proof -
  let ?T = "text_of_lines [''<-Start Diagnostic->'', ''<-End Diagnostic->'', ''<-Start Result->'', ''Status=OK'', ''junk'', ''<-End Result->'']"
  have 1: "find_all (splitlines ?T) START_DIAGNOSTIC = [0]"
    unfolding lines_extra by (simp add: find_all_def marker_defs str_eval)
  have 2: "find_all (splitlines ?T) END_DIAGNOSTIC = [1]"
    unfolding lines_extra by (simp add: find_all_def marker_defs str_eval)
  have 3: "find_all (splitlines ?T) START_RESULT = [2]"
    unfolding lines_extra by (simp add: find_all_def marker_defs str_eval)
  have 4: "find_all (splitlines ?T) END_RESULT = [5]"
    unfolding lines_extra by (simp add: find_all_def marker_defs str_eval)
  have ne: "non_empty (result_lines (splitlines ?T) 2 5) = [(3, u ''Status=OK''), (4, u ''junk'')]"
    unfolding lines_extra by (simp add: non_empty_def result_lines_def rstrip_nl_def str_eval)
  have pa: "pattern_match (u ''Status'') (u ''Status=OK'')"
    by (simp add: pattern_match_def dot_plus_eol_def u_def)
  have pb: "\<not> pattern_match (u ''Status'') (u ''junk'')"
    by (simp add: pattern_match_def dot_plus_eol_def u_def)
  have one: "pattern_match (u ''Status'') (snd (3::nat, u ''Status=OK'')) \<noteq>
             pattern_match (u ''Status'') (snd (4::nat, u ''junk''))"
    using pa pb by simp
  have o: "(0::nat) < 1" "(1::nat) < 2" "(2::nat) < 5" by simp_all
  show ?thesis
    using extra_line_rejected [OF status_name 1 2 3 4 o ne one] pa by simp
qed

lemma lines_space_value:
  "splitlines (text_of_lines [''<-Start Diagnostic->'', ''<-End Diagnostic->'', ''<-Start Result->'', ''Status= OK'', ''<-End Result->'']) =
   [u ''<-Start Diagnostic->'', u ''<-End Diagnostic->'', u ''<-Start Result->'', u ''Status= OK'', u ''<-End Result->'']"
  by (simp add: text_of_lines_def u_def splitlines_def islinebreak_def)

theorem leading_space_value_witness:
  "validate_monitor_output (text_of_lines [''<-Start Diagnostic->'', ''<-End Diagnostic->'', ''<-Start Result->'', ''Status= OK'', ''<-End Result->'']) (u ''Status'') =
     Inr \<lparr>ok = False, errors = [SpacesAroundEq]\<rparr>"
proof -
  let ?T = "text_of_lines [''<-Start Diagnostic->'', ''<-End Diagnostic->'', ''<-Start Result->'', ''Status= OK'', ''<-End Result->'']"
  have 1: "find_all (splitlines ?T) START_DIAGNOSTIC = [0]"
    unfolding lines_space_value by (simp add: find_all_def marker_defs str_eval)
  have 2: "find_all (splitlines ?T) END_DIAGNOSTIC = [1]"
    unfolding lines_space_value by (simp add: find_all_def marker_defs str_eval)
  have 3: "find_all (splitlines ?T) START_RESULT = [2]"
    unfolding lines_space_value by (simp add: find_all_def marker_defs str_eval)
  have 4: "find_all (splitlines ?T) END_RESULT = [4]"
    unfolding lines_space_value by (simp add: find_all_def marker_defs str_eval)
  have ne: "non_empty (result_lines (splitlines ?T) 2 4) = [(3, u ''Status= OK'')]"
    unfolding lines_space_value by (simp add: non_empty_def result_lines_def rstrip_nl_def str_eval)
  have ms: "matching (u ''Status'') (non_empty (result_lines (splitlines ?T) 2 4)) = [(3, u ''Status= OK'')]"
    unfolding ne by (simp add: matching_def pattern_match_def dot_plus_eol_def u_def)
  have ot: "other_lines (non_empty (result_lines (splitlines ?T) 2 4)) (3, u ''Status= OK'') = []"
    unfolding ne by (simp add: other_lines_def)
  have v: "snd (3::nat, u ''Status= OK'') = u ''Status'' @ u ''='' @ 0x20 # u ''OK''"
    by (simp add: u_def)
  have c: "isspace 0x20" by (simp add: isspace_def)
  have o: "(0::nat) < 1" "(1::nat) < 2" "(2::nat) < 4" by simp_all
  show ?thesis
    by (rule leading_space_value [OF status_name 1 2 3 4 o ms ot v c])
qed

lemma lines_indented:
  "splitlines (text_of_lines [''<-Start Diagnostic->'', ''<-End Diagnostic->'', ''<-Start Result->'', ''  Status=OK'', ''<-End Result->'']) =
   [u ''<-Start Diagnostic->'', u ''<-End Diagnostic->'', u ''<-Start Result->'', u ''  Status=OK'', u ''<-End Result->'']"
  by (simp add: text_of_lines_def u_def splitlines_def islinebreak_def)

theorem result_line_untrimmed_witness:
  "validate_monitor_output (text_of_lines [''<-Start Diagnostic->'', ''<-End Diagnostic->'', ''<-Start Result->'', ''  Status=OK'', ''<-End Result->'']) (u ''Status'') =
     Inr \<lparr>ok = False, errors = [ExpectedOneVarLine (u ''Status'') 0, ExampleLine]\<rparr> \<and>
   find_all [u ''  '' @ START_DIAGNOSTIC @ u '' ''] START_DIAGNOSTIC = [0]"
proof -
  let ?T = "text_of_lines [''<-Start Diagnostic->'', ''<-End Diagnostic->'', ''<-Start Result->'', ''  Status=OK'', ''<-End Result->'']"
  have 1: "find_all (splitlines ?T) START_DIAGNOSTIC = [0]"
    unfolding lines_indented by (simp add: find_all_def marker_defs str_eval)
  have 2: "find_all (splitlines ?T) END_DIAGNOSTIC = [1]"
    unfolding lines_indented by (simp add: find_all_def marker_defs str_eval)
  have 3: "find_all (splitlines ?T) START_RESULT = [2]"
    unfolding lines_indented by (simp add: find_all_def marker_defs str_eval)
  have 4: "find_all (splitlines ?T) END_RESULT = [4]"
    unfolding lines_indented by (simp add: find_all_def marker_defs str_eval)
  have ne: "non_empty (result_lines (splitlines ?T) 2 4) = [(3, u ''  '' @ u ''Status'' @ u ''='' @ u ''OK'')]"
    unfolding lines_indented by (simp add: non_empty_def result_lines_def rstrip_nl_def str_eval)
  have ws: "u ''  '' \<noteq> []" "list_all isspace (u ''  '')"
    by (simp_all add: u_def isspace_def)
  have ws': "list_all isspace (u '' '')"
    by (simp_all add: u_def isspace_def)
  have m: "START_DIAGNOSTIC \<in> set MARKERS" by (simp add: MARKERS_def)
  have o: "(0::nat) < 1" "(1::nat) < 2" "(2::nat) < 4" by simp_all
  show ?thesis
    by (rule result_line_untrimmed [OF status_name 1 2 3 4 o ne ws m ws(2) ws'])
qed

lemma lines_good:
  "splitlines (text_of_lines [''<-Start Diagnostic->'', ''checking'', ''<-End Diagnostic->'', ''<-Start Result->'', ''Status=OK: all good'', ''<-End Result->'']) =
   [u ''<-Start Diagnostic->'', u ''checking'', u ''<-End Diagnostic->'', u ''<-Start Result->'', u ''Status=OK: all good'', u ''<-End Result->'']"
  by (simp add: text_of_lines_def u_def splitlines_def islinebreak_def)

lemma good_example:
  "validate_monitor_output (text_of_lines [''<-Start Diagnostic->'', ''checking'', ''<-End Diagnostic->'', ''<-Start Result->'', ''Status=OK: all good'', ''<-End Result->'']) (u ''Status'') =
     Inr \<lparr>ok = True, errors = []\<rparr>"
proof -
  let ?T = "text_of_lines [''<-Start Diagnostic->'', ''checking'', ''<-End Diagnostic->'', ''<-Start Result->'', ''Status=OK: all good'', ''<-End Result->'']"
  have 1: "find_all (splitlines ?T) START_DIAGNOSTIC = [0]"
    unfolding lines_good by (simp add: find_all_def marker_defs str_eval)
  have 2: "find_all (splitlines ?T) END_DIAGNOSTIC = [2]"
    unfolding lines_good by (simp add: find_all_def marker_defs str_eval)
  have 3: "find_all (splitlines ?T) START_RESULT = [3]"
    unfolding lines_good by (simp add: find_all_def marker_defs str_eval)
  have 4: "find_all (splitlines ?T) END_RESULT = [5]"
    unfolding lines_good by (simp add: find_all_def marker_defs str_eval)
  have ne: "non_empty (result_lines (splitlines ?T) 3 5) = [(4, u ''Status=OK: all good'')]"
    unfolding lines_good by (simp add: non_empty_def result_lines_def rstrip_nl_def str_eval)
  have ms: "matching (u ''Status'') [(4::nat, u ''Status=OK: all good'')] = [(4, u ''Status=OK: all good'')]"
    by (simp add: matching_def pattern_match_def dot_plus_eol_def u_def)
  have ot: "other_lines [(4::nat, u ''Status=OK: all good'')] (4, u ''Status=OK: all good'') = []"
    by (simp add: other_lines_def)
  have v: "\<not> str_isspace (take 1 (drop (length (u ''Status'') + 1) (u ''Status=OK: all good'')))"
    by (simp add: u_def str_isspace_def isspace_def)
  have o: "(0::nat) < 2" "(2::nat) < 3" "(3::nat) < 5" by simp_all
  show ?thesis
    using v by (simp add: validate_after_order [OF status_name 1 2 3 4 o] ne ms ot)
qed

lemma empty_example:
  "validate_monitor_output [] (u ''Status'') =
     Inr \<lparr>ok = False, errors = map ExpectedExactlyOne MARKERS\<rparr>"
  by (simp add: validate_monitor_output_def status_name splitlines_def find_all_def
      count_errors_def MARKERS_def)

theorem validation_result_invariant_witness:
  "errors \<lparr>ok = True, errors = []\<rparr> = [] \<and>
   errors \<lparr>ok = False, errors = map ExpectedExactlyOne MARKERS\<rparr> \<noteq> []"
  using validation_result_invariant [OF good_example] validation_result_invariant [OF empty_example]
  by simp

section \<open>The run operation: properties\<close>


text \<open>
  Claim C1. In a run that validates the output of the child and gets a result from the
  validator: when the child exits with code 0 and the result has \<open>ok = False\<close>, the run
  returns 2, the code kept for a failed validation; when the child exits with any other code,
  the run returns that code, whatever the result of the validation.
\<close>

theorem exit_code_rule:
  assumes "prepare h args w = Returned (script_path, workdir, env, cmd) w1"
    and "run_process h cmd workdir env w1 = Returned returncode w2"
    and "should_validate args script_path"
    and "read_text w2 (workdir @ [u ''stdout.txt'']) = Inr stdout_text"
    and "validate_monitor_output stdout_text (args_output_var args) = Inr validation"
  shows "(returncode = 0 \<and> \<not> ok validation \<longrightarrow> cmd_run h args w = Returned 2 w2) \<and>
         (returncode \<noteq> 0 \<longrightarrow> cmd_run h args w = Returned returncode w2)"
  using assms by (simp add: cmd_run_def)

lemma prepare_script_path:
  assumes "prepare h args w = Returned (script_path, workdir, env, cmd) w1"
  shows "script_path =
           (if is_absolute (args_script args) then args_script args
            else resolve w (REPO_ROOT h @ args_script args))"
  using assms
  by (auto simp: prepare_def Let_def split: if_splits prod.splits sum.splits outcome.splits option.splits)

text \<open>
  Claim C5, amended. Once the child has run, its output is validated if and only if the
  caller asked for it or a component of the script path is \<open>Monitors\<close>. The script path
  is the path as it is given when that is absolute, and the root of the repository joined
  with it and resolved otherwise; so the classification as a monitor is read off the path and
  is no signal of its own.
\<close>

theorem validation_decision:
  assumes "prepare h args w = Returned (script_path, workdir, env, cmd) w1"
    and "run_process h cmd workdir env w1 = Returned returncode w2"
  shows "script_path =
           (if is_absolute (args_script args) then args_script args
            else resolve w (REPO_ROOT h @ args_script args)) \<and>
         cmd_run h args w =
           (if args_validate_monitor args \<or> u ''Monitors'' \<in> set script_path then
              (case read_text w2 (workdir @ [u ''stdout.txt'']) of
                 Inl e \<Rightarrow> Raised e w2
               | Inr stdout_text \<Rightarrow>
                   (case validate_monitor_output stdout_text (args_output_var args) of
                      Inl e \<Rightarrow> Raised (RmmError e) w2
                    | Inr validation \<Rightarrow>
                        Returned (if \<not> ok validation \<and> returncode = 0 then 2 else returncode) w2))
            else Returned returncode w2)"
proof -
  have "should_validate args script_path \<longleftrightarrow>
          args_validate_monitor args \<or> u ''Monitors'' \<in> set script_path"
    by (auto simp: should_validate_def Let_def)
  then show ?thesis
    using assms prepare_script_path [OF assms(1)]
    by (auto simp: cmd_run_def split: sum.splits)
qed




lemma self_in_ancestors: "q \<noteq> [] \<Longrightarrow> q \<in> set (ancestors q)"
  by (cases q) (auto simp: ancestors_def intro!: image_eqI [where x = "length q"])

lemma resolve_cong: "cwd w' = cwd w \<Longrightarrow> resolve w' p = resolve w p"
  by (simp add: resolve_def)

lemma mkdir_parents_effect:
  assumes "mkdir_parents p w = Inr w2"
  shows "cwd w2 = cwd w \<and> spawned w2 = spawned w \<and> files w2 = files w \<and>
         (resolve w p \<noteq> [] \<longrightarrow> resolve w p \<in> set (dirs w2))"
proof -
  have w2: "w2 = w\<lparr>dirs := dirs w @ filter (\<lambda>a. a \<notin> set (dirs w)) (ancestors (resolve w p))\<rparr>"
    using assms by (auto simp: mkdir_parents_def Let_def split: if_splits)
  show ?thesis
    using self_in_ancestors [of "resolve w p"] by (auto simp: w2)
qed

lemma copy2_effect:
  "copy2 src dst w = Inr w' \<Longrightarrow> cwd w' = cwd w \<and> dirs w' = dirs w \<and> spawned w' = spawned w"
  by (auto simp: copy2_def write_file_def Let_def split: if_splits option.splits)

lemma copy_children_effect:
  "(copy_children cs wd w = Raised e w' \<or> copy_children cs wd w = Returned x w') \<Longrightarrow>
     cwd w' = cwd w \<and> dirs w' = dirs w \<and> spawned w' = spawned w"
proof (induction cs arbitrary: w)
  case Nil
  then show ?case by simp
next
  case (Cons c cs)
  show ?case
  proof (cases "is_file w c")
    case False
    with Cons show ?thesis by simp
  next
    case True
    show ?thesis
    proof (cases "copy2 c (wd @ [name_of c]) w")
      case (Inl e')
      with True Cons.prems show ?thesis by simp
    next
      case (Inr w1)
      with True Cons.prems have "copy_children cs wd w1 = Raised e w' \<or> copy_children cs wd w1 = Returned x w'"
        by simp
      from Cons.IH [OF this] copy2_effect [OF Inr] show ?thesis by simp
    qed
  qed
qed

lemma copy_children_error:
  "copy_children cs wd w = Raised e w' \<Longrightarrow> e = OSError"
proof (induction cs arbitrary: w)
  case Nil
  then show ?case by simp
next
  case (Cons c cs)
  then show ?case
    by (auto simp: copy2_def Let_def split: if_splits sum.splits option.splits)
qed

lemma copy_attachments_effect:
  "(copy_attachments a wd w = Raised e w' \<or> copy_attachments a wd w = Returned x w') \<Longrightarrow>
     cwd w' = cwd w \<and> dirs w' = dirs w \<and> spawned w' = spawned w"
  using copy_children_effect [of "iterdir w a" wd w e w' x]
  by (auto simp: copy_attachments_def split: if_splits)

lemma copy_attachments_error:
  "copy_attachments a wd w = Raised e w' \<Longrightarrow> e = OSError \<or> e = RmmError (AttachmentsNotDirectory a)"
  using copy_children_error [of "iterdir w a" wd w e w']
  by (auto simp: copy_attachments_def split: if_splits)

lemma mkdir_parents_error: "mkdir_parents p w = Inl e \<Longrightarrow> e = OSError"
  by (auto simp: mkdir_parents_def Let_def split: if_splits)

lemma parse_env_lines_error:
  "parse_env_lines sh ls env = Inl e \<Longrightarrow> (\<exists>l. e = InvalidEnvLine l \<or> e = InvalidEnvLineEmptyKey l)"
proof (induction ls arbitrary: env)
  case Nil
  then show ?case by simp
next
  case (Cons raw_line rest)
  show ?case
    using Cons.prems Cons.IH by (auto simp: Let_def split: if_splits)
qed




lemma run_process_error:
  "run_process h cmd wd env w = Raised e w' \<Longrightarrow> e = OSError \<or> (\<exists>c. e = RmmError (CommandNotFound c))"
  by (auto simp: run_process_def open_wb_def Let_def split: if_splits sum.splits option.splits prod.splits)

lemma prepare_Returned:
  assumes p: "prepare h args w = Returned x w'"
  shows "spawned w' = spawned w"
proof -
  define sp where "sp = (if \<not> is_absolute (args_script args)
      then resolve w (REPO_ROOT h @ args_script args) else args_script args)"
  define wd where "wd = (case args_workdir args of Some d \<Rightarrow> resolve w d | None \<Rightarrow> mkdtemp h w)"
  define w1 where "w1 = (case args_workdir args of Some d \<Rightarrow> w
      | None \<Rightarrow> w\<lparr>dirs := dirs w @ [mkdtemp h w]\<rparr>)"
  have pair: "(case args_workdir args of Some d \<Rightarrow> (resolve w d, w)
      | None \<Rightarrow> (mkdtemp h w, w\<lparr>dirs := dirs w @ [mkdtemp h w]\<rparr>)) = (wd, w1)"
    by (simp add: wd_def w1_def split: option.splits)
  have w1: "spawned w1 = spawned w"
    by (simp add: w1_def split: option.splits)
  from p have ex: "exists_path w sp"
    by (auto simp: prepare_def Let_def sp_def split: if_splits)
  from p ex obtain w2 where w2: "mkdir_parents wd w1 = Inr w2"
    by (cases "mkdir_parents wd w1") (simp_all add: prepare_def Let_def sp_def [symmetric] pair)
  note m = mkdir_parents_effect [OF w2]
  let ?envr = "case args_vars args of None \<Rightarrow> Inr (environ h)
      | Some v \<Rightarrow> (case parse_env_file (shlex_split h) w2 v of Inl e \<Rightarrow> Inl e
          | Inr parsed \<Rightarrow> Inr (environ h ++ parsed))"
  from p ex w2 obtain env where env: "?envr = Inr env"
    by (cases ?envr) (simp_all add: prepare_def Let_def sp_def [symmetric] pair)
  let ?att = "case args_attachments args of None \<Rightarrow> Returned () w2
      | Some a \<Rightarrow> copy_attachments a wd w2"
  from p ex w2 env obtain y w3 where att: "?att = Returned y w3"
    by (cases ?att) (simp_all add: prepare_def Let_def sp_def [symmetric] pair)
  have eff: "spawned w3 = spawned w2"
  proof (cases "args_attachments args")
    case None
    with att show ?thesis by simp
  next
    case (Some a)
    with att show ?thesis
      using copy_attachments_effect [of a wd w2 undefined w3 y] by simp
  qed
  from p ex w2 env att have "w' = w3"
    by (simp add: prepare_def Let_def sp_def [symmetric] pair split: if_splits)
  then show ?thesis using eff m w1 by simp
qed

lemma parse_env_file_config:
  "parse_env_file sh w v = Inl (RmmError e) \<Longrightarrow> is_config_error e"
  using parse_env_lines_error
  by (fastforce simp: parse_env_file_def read_text_def split: if_splits sum.splits option.splits)

lemma prepare_Raised_config:
  assumes p: "prepare h args w = Raised (RmmError e) w'"
  shows "is_config_error e"
proof -
  define sp where "sp = (if \<not> is_absolute (args_script args)
      then resolve w (REPO_ROOT h @ args_script args) else args_script args)"
  define wd where "wd = (case args_workdir args of Some d \<Rightarrow> resolve w d | None \<Rightarrow> mkdtemp h w)"
  define w1 where "w1 = (case args_workdir args of Some d \<Rightarrow> w
      | None \<Rightarrow> w\<lparr>dirs := dirs w @ [mkdtemp h w]\<rparr>)"
  have pair: "(case args_workdir args of Some d \<Rightarrow> (resolve w d, w)
      | None \<Rightarrow> (mkdtemp h w, w\<lparr>dirs := dirs w @ [mkdtemp h w]\<rparr>)) = (wd, w1)"
    by (simp add: wd_def w1_def split: option.splits)
  show ?thesis
  proof (cases "exists_path w sp")
    case False
    with p show ?thesis by (auto simp: prepare_def Let_def sp_def)
  next
    case True
    show ?thesis
    proof (cases "mkdir_parents wd w1")
      case (Inl e')
      with p True mkdir_parents_error [OF Inl] show ?thesis
        by (simp add: prepare_def Let_def sp_def [symmetric] pair)
    next
      case (Inr w2)
      let ?envr = "case args_vars args of None \<Rightarrow> Inr (environ h)
          | Some v \<Rightarrow> (case parse_env_file (shlex_split h) w2 v of Inl e \<Rightarrow> Inl e
              | Inr parsed \<Rightarrow> Inr (environ h ++ parsed))"
      show ?thesis
      proof (cases ?envr)
        case (Inl e')
        with p True Inr have "e' = RmmError e"
          by (simp add: prepare_def Let_def sp_def [symmetric] pair)
        with Inl show ?thesis
          using parse_env_file_config by (auto split: option.splits sum.splits)
      next
        case envr: (Inr env)
        let ?att = "case args_attachments args of None \<Rightarrow> Returned () w2
            | Some a \<Rightarrow> copy_attachments a wd w2"
        show ?thesis
        proof (cases ?att)
          case (Raised e' w3)
          with p True Inr envr have e': "e' = RmmError e"
            by (simp add: prepare_def Let_def sp_def [symmetric] pair)
          from Raised obtain a where "copy_attachments a wd w2 = Raised e' w3"
            by (cases "args_attachments args") auto
          from copy_attachments_error [OF this] e' show ?thesis by auto
        next
          case (Returned x w3)
          with p True Inr envr have "e = UnsupportedExtension (suffix sp)"
            by (simp add: prepare_def Let_def sp_def [symmetric] pair split: if_splits)
          then show ?thesis by simp
        qed
      qed
    qed
  qed
qed

lemma open_wb_spawned: "open_wb p w = Inr w1 \<Longrightarrow> spawned w1 = spawned w"
  by (auto simp: open_wb_def write_file_def split: if_splits)

lemma run_process_Returned:
  assumes "run_process h cmd wd env w = Returned rc w'"
  shows "spawned w' = spawned w @ [cmd]"
proof -
  from assms obtain w1 where w1: "open_wb (wd @ [u ''stdout.txt'']) w = Inr w1"
    by (cases "open_wb (wd @ [u ''stdout.txt'']) w") (simp_all add: run_process_def Let_def)
  from assms w1 obtain w2 where w2: "open_wb (wd @ [u ''stderr.txt'']) w1 = Inr w2"
    by (cases "open_wb (wd @ [u ''stderr.txt'']) w1") (simp_all add: run_process_def Let_def)
  from assms w1 w2 obtain out err where
    "w' = write_file (resolve w2 (wd @ [u ''stderr.txt''])) err
            (write_file (resolve w2 (wd @ [u ''stdout.txt''])) out
              (w2\<lparr>spawned := spawned w2 @ [cmd]\<rparr>))"
    by (cases "subprocess_run h cmd wd env w2") (auto simp: run_process_def Let_def)
  then have "spawned w' = spawned w2 @ [cmd]" by (simp add: write_file_def)
  with open_wb_spawned [OF w1] open_wb_spawned [OF w2] show ?thesis by simp
qed


text \<open>
  An invalid output variable name is not among the configuration errors above: the run meets
  it in the validator only, after the child has been spawned.
\<close>

lemma invalid_output_var_after_spawn:
  assumes run: "cmd_run h args w = Raised (RmmError (InvalidOutputVar v)) w'"
  shows "\<exists>cmd. spawned w' = spawned w @ [cmd]"
proof (cases "prepare h args w")
  case (Raised e1 w1)
  with run have "prepare h args w = Raised (RmmError (InvalidOutputVar v)) w'"
    by (simp add: cmd_run_def)
  from prepare_Raised_config [OF this] have False by simp
  then show ?thesis ..
next
  case (Returned x w1)
  obtain script_path workdir env cmd where x: "x = (script_path, workdir, env, cmd)"
    by (cases x) auto
  show ?thesis
  proof (cases "run_process h cmd workdir env w1")
    case r: (Raised e2 w2)
    with run Returned x have "e2 = RmmError (InvalidOutputVar v)" by (simp add: cmd_run_def)
    with run_process_error [OF r] have False by auto
    then show ?thesis ..
  next
    case r: (Returned returncode w2)
    from run Returned x r have "w' = w2"
      by (auto simp: cmd_run_def split: if_splits sum.splits)
    with run_process_Returned [OF r] prepare_Returned [OF Returned] show ?thesis by auto
  qed
qed

lemma u_eq_iff: "u a = u b \<longleftrightarrow> a = b"
  by (simp add: u_def inj_map_eq_map [OF inj_of_char])

lemma u_Nil_iff: "u a = [] \<longleftrightarrow> a = []"
  by (simp add: u_def)

lemmas fs_eval = is_absolute_def resolve_def exists_path_def is_file_def is_dir_def
  mkdir_parents_def write_file_def open_wb_def read_text_def
  u_eq_iff u_Nil_iff

lemma cmd_run_after_spawn:
  assumes "prepare h args w = Returned (script_path, workdir, env, cmd) w1"
    and "run_process h cmd workdir env w1 = Returned returncode w2"
  shows "cmd_run h args w =
           (if should_validate args script_path then
              (case read_text w2 (workdir @ [u ''stdout.txt'']) of
                 Inl e \<Rightarrow> Raised e w2
               | Inr stdout_text \<Rightarrow>
                   (case validate_monitor_output stdout_text (args_output_var args) of
                      Inl e \<Rightarrow> Raised (RmmError e) w2
                    | Inr validation \<Rightarrow>
                        if ok validation then Returned returncode w2
                        else if returncode = 0 then Returned 2 w2
                        else Returned returncode w2))
            else Returned returncode w2)"
  using assms by (simp add: cmd_run_def)

lemma ancestors_2: "ancestors [a, b] = [[a], [a, b]]"
  by (simp add: ancestors_def upt_rec)

lemma ancestors_3: "ancestors [a, b, c] = [[a], [a, b], [a, b, c]]"
  by (simp add: ancestors_def upt_rec)

lemma suffix_examples:
  "lower (suffix [u ''/'', u ''r'', u ''Monitors'', u ''c.sh'']) = u ''.sh''"
  "lower (suffix [u ''/'', u ''r'', u ''Scripts'', u ''c.sh'']) = u ''.sh''"
  "lower (suffix [u ''/'', u ''r'', u ''Scripts'', u ''c.txt'']) = u ''.txt''"
  "lower (suffix [u ''/'', u ''r'', u ''Monitors'', u ''..'', u ''Scripts'', u ''c.sh'']) = u ''.sh''"
  "suffix [u ''/'', u ''r'', u ''Scripts'', u ''c.txt''] = u ''.txt''"
  "lower (u ''.txt'') = u ''.txt''"
  by (simp_all add: suffix_def name_of_def lower_def u_def)

lemma str_examples:
  "str_of_path [u ''/'', u ''r'', u ''Monitors'', u ''c.sh''] = u ''/r/Monitors/c.sh''"
  "str_of_path [u ''/'', u ''r'', u ''Scripts'', u ''c.sh''] = u ''/r/Scripts/c.sh''"
  "str_of_path [u ''/'', u ''r'', u ''Monitors'', u ''..'', u ''Scripts'', u ''c.sh''] =
     u ''/r/Monitors/../Scripts/c.sh''"
  by (simp_all add: str_of_path_def is_absolute_def u_def)

lemmas run_eval = example_host_def failing_host_def example_args_def example_world_def fs_eval
  suffix_examples str_examples ancestors_2 ancestors_3 Let_def

lemma prepare_monitors:
  "prepare example_host (example_args [u ''Monitors'', u ''c.sh'']) example_world =
     Returned ([u ''/'', u ''r'', u ''Monitors'', u ''c.sh''], [u ''/'', u ''t''], Map.empty,
        [u ''bash'', u ''/r/Monitors/c.sh''])
       (example_world\<lparr>dirs := dirs example_world @ [[u ''/'', u ''t'']]\<rparr>)"
  by (simp add: prepare_def run_eval)

lemma prepare_monitors_failing:
  "prepare failing_host (example_args [u ''Monitors'', u ''c.sh'']) example_world =
     Returned ([u ''/'', u ''r'', u ''Monitors'', u ''c.sh''], [u ''/'', u ''t''], Map.empty,
        [u ''bash'', u ''/r/Monitors/c.sh''])
       (example_world\<lparr>dirs := dirs example_world @ [[u ''/'', u ''t'']]\<rparr>)"
  by (simp add: prepare_def run_eval)

lemma prepare_scripts:
  "prepare example_host (example_args [u ''Scripts'', u ''c.sh'']) example_world =
     Returned ([u ''/'', u ''r'', u ''Scripts'', u ''c.sh''], [u ''/'', u ''t''], Map.empty,
        [u ''bash'', u ''/r/Scripts/c.sh''])
       (example_world\<lparr>dirs := dirs example_world @ [[u ''/'', u ''t'']]\<rparr>)"
  by (simp add: prepare_def run_eval)

lemma prepare_through_monitors:
  "prepare example_host
       (example_args [u ''/'', u ''r'', u ''Monitors'', u ''..'', u ''Scripts'', u ''c.sh''])
       example_world =
     Returned ([u ''/'', u ''r'', u ''Monitors'', u ''..'', u ''Scripts'', u ''c.sh''],
        [u ''/'', u ''t''], Map.empty, [u ''bash'', u ''/r/Monitors/../Scripts/c.sh''])
       (example_world\<lparr>dirs := dirs example_world @ [[u ''/'', u ''t'']]\<rparr>)"
  by (simp add: prepare_def run_eval)

lemma run_process_example:
  "run_process example_host cmd [u ''/'', u ''t''] Map.empty
       (example_world\<lparr>dirs := dirs example_world @ [[u ''/'', u ''t'']]\<rparr>) =
     Returned 0
       (example_world\<lparr>dirs := dirs example_world @ [[u ''/'', u ''t'']],
          files := ([u ''/'', u ''t'', u ''stderr.txt''], []) #
                   ([u ''/'', u ''t'', u ''stdout.txt''], []) # files example_world,
          spawned := [cmd]\<rparr>)"
  by (simp add: run_process_def run_eval)

lemma run_process_failing:
  "run_process failing_host cmd [u ''/'', u ''t''] Map.empty
       (example_world\<lparr>dirs := dirs example_world @ [[u ''/'', u ''t'']]\<rparr>) =
     Returned 3
       (example_world\<lparr>dirs := dirs example_world @ [[u ''/'', u ''t'']],
          files := ([u ''/'', u ''t'', u ''stderr.txt''], []) #
                   ([u ''/'', u ''t'', u ''stdout.txt''], []) # files example_world,
          spawned := [cmd]\<rparr>)"
  by (simp add: run_process_def run_eval)

lemma read_stdout_example:
  "read_text
     (example_world\<lparr>dirs := dirs example_world @ [[u ''/'', u ''t'']],
          files := ([u ''/'', u ''t'', u ''stderr.txt''], []) #
                   ([u ''/'', u ''t'', u ''stdout.txt''], []) # files example_world,
          spawned := [cmd]\<rparr>)
     [u ''/'', u ''t'', u ''stdout.txt''] = Inr []"
  by (simp add: run_eval)

lemma should_validate_examples:
  "should_validate (example_args p) [u ''/'', u ''r'', u ''Monitors'', u ''c.sh'']"
  "\<not> should_validate (example_args p) [u ''/'', u ''r'', u ''Scripts'', u ''c.sh'']"
  by (simp_all add: should_validate_def example_args_def u_eq_iff)

lemma output_var_example: "args_output_var (example_args p) = u ''Status''"
  by (simp add: example_args_def)

lemma run_monitors:
  "cmd_run example_host (example_args [u ''Monitors'', u ''c.sh'']) example_world =
     Returned 2
       (example_world\<lparr>dirs := dirs example_world @ [[u ''/'', u ''t'']],
          files := ([u ''/'', u ''t'', u ''stderr.txt''], []) #
                   ([u ''/'', u ''t'', u ''stdout.txt''], []) # files example_world,
          spawned := [[u ''bash'', u ''/r/Monitors/c.sh'']]\<rparr>)"
  by (simp add: cmd_run_after_spawn [OF prepare_monitors run_process_example]
      should_validate_examples read_stdout_example output_var_example empty_example)

lemma run_scripts:
  "cmd_run example_host (example_args [u ''Scripts'', u ''c.sh'']) example_world =
     Returned 0
       (example_world\<lparr>dirs := dirs example_world @ [[u ''/'', u ''t'']],
          files := ([u ''/'', u ''t'', u ''stderr.txt''], []) #
                   ([u ''/'', u ''t'', u ''stdout.txt''], []) # files example_world,
          spawned := [[u ''bash'', u ''/r/Scripts/c.sh'']]\<rparr>)"
  by (simp add: cmd_run_after_spawn [OF prepare_scripts run_process_example]
      should_validate_examples)

text \<open>
  Claim C5 as stated fails: two runs that differ in the script path alone, neither asking
  for validation, with a child that prints nothing and exits with code 0. The script under
  \<open>Monitors\<close> is validated and the run returns 2; the script under \<open>Scripts\<close> is not and
  the run returns 0.
\<close>

theorem path_decides_validation_counterexample:
  "args_validate_monitor (example_args [u ''Monitors'', u ''c.sh'']) =
     args_validate_monitor (example_args [u ''Scripts'', u ''c.sh'']) \<and>
   exit_code_of (cmd_run example_host (example_args [u ''Monitors'', u ''c.sh'']) example_world) = Some 2 \<and>
   exit_code_of (cmd_run example_host (example_args [u ''Scripts'', u ''c.sh'']) example_world) = Some 0"
proof -
  have "args_validate_monitor (example_args [u ''Monitors'', u ''c.sh'']) =
     args_validate_monitor (example_args [u ''Scripts'', u ''c.sh''])"
    by (simp add: example_args_def)
  then show ?thesis by (simp add: run_monitors run_scripts)
qed


theorem exit_code_rule_witness:
  "exit_code_of (cmd_run example_host (example_args [u ''Monitors'', u ''c.sh'']) example_world) = Some 2 \<and>
   exit_code_of (cmd_run failing_host (example_args [u ''Monitors'', u ''c.sh'']) example_world) = Some 3"
proof -
  let ?args = "example_args [u ''Monitors'', u ''c.sh'']"
  let ?w2 = "\<lambda>cmd. example_world\<lparr>dirs := dirs example_world @ [[u ''/'', u ''t'']],
          files := ([u ''/'', u ''t'', u ''stderr.txt''], []) #
                   ([u ''/'', u ''t'', u ''stdout.txt''], []) # files example_world,
          spawned := [cmd]\<rparr>"
  have r: "read_text (?w2 cmd) ([u ''/'', u ''t''] @ [u ''stdout.txt'']) = Inr []" for cmd
    by (simp add: read_stdout_example)
  have v: "validate_monitor_output [] (args_output_var ?args) =
             Inr \<lparr>ok = False, errors = map ExpectedExactlyOne MARKERS\<rparr>"
    by (simp add: output_var_example empty_example)
  show ?thesis
    using exit_code_rule [OF prepare_monitors run_process_example should_validate_examples(1) r v]
      exit_code_rule [OF prepare_monitors_failing run_process_failing should_validate_examples(1) r v]
    by simp
qed

theorem validation_decision_witness:
  "[u ''/'', u ''r'', u ''Scripts'', u ''c.sh''] =
     resolve example_world (REPO_ROOT example_host @ [u ''Scripts'', u ''c.sh'']) \<and>
   exit_code_of (cmd_run example_host (example_args [u ''Scripts'', u ''c.sh'']) example_world) = Some 0 \<and>
   resolve example_world [u ''/'', u ''r'', u ''Monitors'', u ''..'', u ''Scripts'', u ''c.sh''] =
     [u ''/'', u ''r'', u ''Scripts'', u ''c.sh''] \<and>
   exit_code_of (cmd_run example_host
     (example_args [u ''/'', u ''r'', u ''Monitors'', u ''..'', u ''Scripts'', u ''c.sh''])
     example_world) = Some 2"
proof -
  have a: "\<not> is_absolute (args_script (example_args [u ''Scripts'', u ''c.sh'']))"
    "args_script (example_args [u ''Scripts'', u ''c.sh'']) = [u ''Scripts'', u ''c.sh'']"
    "\<not> args_validate_monitor (example_args [u ''Scripts'', u ''c.sh''])"
    by (simp_all add: example_args_def is_absolute_def u_eq_iff)
  have 1: "[u ''/'', u ''r'', u ''Scripts'', u ''c.sh''] =
     resolve example_world (REPO_ROOT example_host @ [u ''Scripts'', u ''c.sh'']) \<and>
   exit_code_of (cmd_run example_host (example_args [u ''Scripts'', u ''c.sh'']) example_world) = Some 0"
    using validation_decision [OF prepare_scripts run_process_example] a
    by (simp add: u_eq_iff)
  have 2: "resolve example_world [u ''/'', u ''r'', u ''Monitors'', u ''..'', u ''Scripts'', u ''c.sh''] =
     [u ''/'', u ''r'', u ''Scripts'', u ''c.sh'']"
    by (simp add: run_eval)
  have 3: "exit_code_of (cmd_run example_host
     (example_args [u ''/'', u ''r'', u ''Monitors'', u ''..'', u ''Scripts'', u ''c.sh''])
     example_world) = Some 2"
    using validation_decision [OF prepare_through_monitors run_process_example]
    by (simp add: u_eq_iff read_stdout_example output_var_example empty_example)
  from 1 2 3 show ?thesis by simp
qed





end
